theory Spec2Isabelle
  imports Main
begin

section \<open>Lazy funsor terms\<close>

text \<open>
  The body of \<open>Trace_ELBO.differentiable_loss\<close> (pyro/contrib/funsor/infer/trace_elbo.py)
  runs under \<open>funsor.terms.lazy\<close>: arithmetic on funsors builds expression nodes instead
  of numbers. A funsor is therefore modelled as the term that the source builds. Variables
  are identified by their names; \<open>cost.inputs\<close> (names) and \<open>cost.input_vars\<close> (named
  variables) are the same set in this model.
\<close>

type_synonym var = string

datatype op = Add | Mul | Neg | Logaddexp | Mean

datatype funsor =
    Atom string "var set"
  | Number int
  | ZeroTensor
  | Constant "var set" funsor
  | Unary op funsor
  | Binary op funsor funsor
  | Reduce op funsor "var set"
  | Integrate funsor funsor "var set"

text \<open>
  \<open>Atom n vs\<close> is a factor that comes from a trace or from the funsor library, with
  inputs \<open>vs\<close>. \<open>Number 0\<close> is \<open>to_funsor(0, output=funsor.Real)\<close>, \<open>ZeroTensor\<close> is
  \<open>funsor.Tensor(funsor.ops.new_zeros(prototype, ()))\<close>, \<open>Unary Neg f\<close> is \<open>-f\<close>,
  \<open>Binary Mul a b\<close> is \<open>a * b\<close>, \<open>Binary Add a b\<close> is \<open>a + b\<close>, \<open>Reduce op f vs\<close> is
  the node that \<open>f.reduce(op, vs)\<close> builds for a set \<open>vs\<close> that is not empty, and
  \<open>Integrate m f vs\<close> is \<open>funsor.Integrate(m, f, vs)\<close>.
\<close>

fun inputs :: "funsor \<Rightarrow> var set" where
  "inputs (Atom n vs) = vs"
| "inputs (Number k) = {}"
| "inputs ZeroTensor = {}"
| "inputs (Constant vs f) = vs \<union> inputs f"
| "inputs (Unary u f) = inputs f"
| "inputs (Binary b f g) = inputs f \<union> inputs g"
| "inputs (Reduce r f vs) = inputs f - vs"
| "inputs (Integrate m f vs) = (inputs m \<union> inputs f) - vs"

section \<open>Trace term bundles and the funsor library\<close>

text \<open>
  \<open>terms_from_trace\<close> returns a dictionary with the keys below; the record keeps the keys
  as field names.
\<close>

record terms =
  log_factors :: "funsor list"
  log_measures :: "funsor list"
  scale :: funsor
  plate_vars :: "var set"
  measure_vars :: "var set"

text \<open>
  The exceptions: \<open>TypeError\<close> and \<open>KeyError\<close> are the ones the body itself can raise;
  \<open>LibraryError\<close> stands for whatever the library's marginal lookup raises.
\<close>

datatype error = TypeError | KeyError | LibraryError

text \<open>
  \<open>self.max_plate_nesting\<close> is \<open>None\<close>, \<open>float("inf")\<close> or an integer; the \<open>dim\<close> handed
  to the particle plate is its negation.
\<close>

datatype nesting = NestingNone | NestingInf | NestingInt int

datatype dim = DimInt int | DimNegInf

record plate_args =
  plate_name :: string
  plate_size :: int
  plate_dim :: dim

text \<open>
  What the source calls and does not define is a parameter of the model: the handlers and
  \<open>terms_from_trace\<close> (lines 23 to 37, which turn the model and the guide into the two
  bundles), and funsor's \<open>_partition\<close>, \<open>partial_sum_product\<close>, \<open>sum_product\<close>,
  \<open>apply_optimizer\<close>, \<open>adjoint\<close> and \<open>to_data\<close>. \<open>adjoint L s p e t\<close> is the subscription
  \<open>marginals[t]\<close> of the object that \<open>adjoint(s, p, e)\<close> returns; it may raise.
\<close>

record 'd funsor_lib =
  get_terms :: "int option \<Rightarrow> plate_args option \<Rightarrow> terms \<times> terms"
  sp_partition :: "funsor list \<Rightarrow> var set \<Rightarrow> (funsor list \<times> var set) list"
  partial_sum_product :: "op \<Rightarrow> op \<Rightarrow> funsor list \<Rightarrow> var set \<Rightarrow> var set \<Rightarrow> funsor list"
  sum_product :: "op \<Rightarrow> op \<Rightarrow> funsor list \<Rightarrow> var set \<Rightarrow> var set \<Rightarrow> funsor"
  apply_optimizer :: "funsor \<Rightarrow> funsor"
  adjoint :: "op \<Rightarrow> op \<Rightarrow> funsor \<Rightarrow> funsor \<Rightarrow> error + funsor"
  to_data :: "funsor \<Rightarrow> 'd"

section \<open>differentiable_loss, stage by stage\<close>

subsection \<open>Handlers (lines 23 to 32)\<close>

definition first_available_dim :: "nesting \<Rightarrow> int option" where
  "first_available_dim mpn =
     (case mpn of NestingInt n \<Rightarrow> Some (- n - 1) | NestingInf \<Rightarrow> None | NestingNone \<Rightarrow> None)"

text \<open>
  The third context manager is \<open>plate(...) if self.num_particles > 1 else ExitStack()\<close>;
  negating \<open>None\<close> raises \<open>TypeError\<close>.
\<close>

definition particle_plate :: "int \<Rightarrow> nesting \<Rightarrow> error + plate_args option" where
  "particle_plate num_particles mpn =
     (if num_particles > 1 then
        (case mpn of
           NestingNone \<Rightarrow> Inl TypeError
         | NestingInf \<Rightarrow> Inr (Some \<lparr>plate_name = ''num_particles_vectorized'',
               plate_size = num_particles, plate_dim = DimNegInf\<rparr>)
         | NestingInt n \<Rightarrow> Inr (Some \<lparr>plate_name = ''num_particles_vectorized'',
               plate_size = num_particles, plate_dim = DimInt (- n)\<rparr>))
      else Inr None)"

subsection \<open>Variable sets (lines 39 to 48)\<close>

definition particle_var :: "int \<Rightarrow> var set" where
  "particle_var num_particles =
     (if num_particles > 1 then {''num_particles_vectorized''} else {})"

text \<open>The local \<open>plate_vars\<close> of line 44; the field of the bundle keeps the plain name.\<close>

definition elbo_plate_vars :: "int \<Rightarrow> terms \<Rightarrow> terms \<Rightarrow> var set" where
  "elbo_plate_vars num_particles guide_terms model_terms =
     (plate_vars guide_terms \<union> plate_vars model_terms) - particle_var num_particles"

definition model_measure_vars :: "terms \<Rightarrow> terms \<Rightarrow> var set" where
  "model_measure_vars guide_terms model_terms =
     measure_vars model_terms - measure_vars guide_terms"

subsection \<open>Splitting the model's factors (lines 51 to 56)\<close>

definition contracted_factors :: "terms \<Rightarrow> terms \<Rightarrow> funsor list" where
  "contracted_factors guide_terms model_terms =
     filter (\<lambda>f. model_measure_vars guide_terms model_terms \<inter> inputs f \<noteq> {})
       (log_factors model_terms)"

definition uncontracted_factors :: "terms \<Rightarrow> terms \<Rightarrow> funsor list" where
  "uncontracted_factors guide_terms model_terms =
     filter (\<lambda>f. \<not> (model_measure_vars guide_terms model_terms \<inter> inputs f \<noteq> {}))
       (log_factors model_terms)"

subsection \<open>Partial elimination of one group (lines 63 to 78)\<close>

definition group_factor_vars :: "funsor list \<Rightarrow> var set" where
  "group_factor_vars group_factors = \<Union> (set (map inputs group_factors))"

definition group_plates :: "terms \<Rightarrow> funsor list \<Rightarrow> var set" where
  "group_plates model_terms group_factors =
     plate_vars model_terms \<inter> group_factor_vars group_factors"

text \<open>
  \<open>frozenset.intersection(*(...))\<close> over the factors of the group; with no factor the
  call has no argument and raises \<open>TypeError\<close>, which \<open>contract_group\<close> returns.
\<close>

definition outermost_plates :: "terms \<Rightarrow> funsor list \<Rightarrow> var set" where
  "outermost_plates model_terms group_factors =
     \<Inter> (set (map (\<lambda>f. inputs f \<inter> group_plates model_terms group_factors) group_factors))"

definition elim_plates :: "terms \<Rightarrow> funsor list \<Rightarrow> var set" where
  "elim_plates model_terms group_factors =
     group_plates model_terms group_factors - outermost_plates model_terms group_factors"

text \<open>The arguments of the call of \<open>partial_sum_product\<close> at lines 71 to 77.\<close>

record psp_call =
  psp_sum_op :: op
  psp_prod_op :: op
  psp_factors :: "funsor list"
  psp_plates :: "var set"
  psp_eliminate :: "var set"

definition group_call :: "terms \<Rightarrow> funsor list \<times> var set \<Rightarrow> psp_call" where
  "group_call model_terms g =
     \<lparr>psp_sum_op = Logaddexp, psp_prod_op = Add, psp_factors = fst g,
      psp_plates = group_plates model_terms (fst g),
      psp_eliminate = snd g \<union> elim_plates model_terms (fst g)\<rparr>"

definition run_psp :: "'d funsor_lib \<Rightarrow> psp_call \<Rightarrow> funsor list" where
  "run_psp L c =
     partial_sum_product L (psp_sum_op c) (psp_prod_op c) (psp_factors c) (psp_plates c)
       (psp_eliminate c)"

definition contract_group ::
  "'d funsor_lib \<Rightarrow> terms \<Rightarrow> funsor list \<times> var set \<Rightarrow> error + funsor list" where
  "contract_group L model_terms g =
     (if fst g = [] then Inl TypeError
      else Inr (map (\<lambda>f. Binary Mul (scale model_terms) f) (run_psp L (group_call model_terms g))))"

text \<open>The loop of line 59 over the groups, appending to \<open>contracted_costs\<close>.\<close>

fun contract_groups ::
  "'d funsor_lib \<Rightarrow> terms \<Rightarrow> funsor list \<Rightarrow> (funsor list \<times> var set) list \<Rightarrow> error + funsor list"
  where
  "contract_groups L model_terms contracted_costs [] = Inr contracted_costs"
| "contract_groups L model_terms contracted_costs (g # gs) =
     (case contract_group L model_terms g of
        Inl e \<Rightarrow> Inl e
      | Inr fs \<Rightarrow> contract_groups L model_terms (contracted_costs @ fs) gs)"

definition model_groups :: "'d funsor_lib \<Rightarrow> terms \<Rightarrow> terms \<Rightarrow> (funsor list \<times> var set) list"
  where
  "model_groups L guide_terms model_terms =
     sp_partition L (log_measures model_terms @ contracted_factors guide_terms model_terms)
       (measure_vars model_terms)"

definition contracted_costs :: "'d funsor_lib \<Rightarrow> terms \<Rightarrow> terms \<Rightarrow> error + funsor list" where
  "contracted_costs L guide_terms model_terms =
     contract_groups L model_terms [] (model_groups L guide_terms model_terms)"

subsection \<open>Costs (lines 81 and 82)\<close>

definition costs_of :: "funsor list \<Rightarrow> terms \<Rightarrow> terms \<Rightarrow> funsor list" where
  "costs_of cc guide_terms model_terms =
     (cc @ uncontracted_factors guide_terms model_terms)
       @ map (\<lambda>f. Unary Neg f) (log_factors guide_terms)"

definition costs :: "'d funsor_lib \<Rightarrow> terms \<Rightarrow> terms \<Rightarrow> error + funsor list" where
  "costs L guide_terms model_terms =
     (case contracted_costs L guide_terms model_terms of
        Inl e \<Rightarrow> Inl e
      | Inr cc \<Rightarrow> Inr (costs_of cc guide_terms model_terms))"

subsection \<open>Probes (lines 86 to 97)\<close>

text \<open>
  \<open>targets\<close> is a dictionary filled in the order of the costs; \<open>list(targets.values())\<close>
  depends on that order, so it is an association list. A key is only ever inserted when
  it is absent.
\<close>

fun make_targets :: "(var set \<times> funsor) list \<Rightarrow> funsor list \<Rightarrow> (var set \<times> funsor) list" where
  "make_targets targets [] = targets"
| "make_targets targets (cost # cs) =
     (if map_of targets (inputs cost) = None
      then make_targets (targets @ [(inputs cost, Constant (inputs cost) ZeroTensor)]) cs
      else make_targets targets cs)"

subsection \<open>Forward contraction (lines 99 to 106)\<close>

record sp_call =
  sp_sum_op :: op
  sp_prod_op :: op
  sp_factors :: "funsor list"
  sp_plates :: "var set"
  sp_eliminate :: "var set"

definition forward_call ::
  "int \<Rightarrow> terms \<Rightarrow> terms \<Rightarrow> (var set \<times> funsor) list \<Rightarrow> sp_call" where
  "forward_call num_particles guide_terms model_terms targets =
     \<lparr>sp_sum_op = Logaddexp, sp_prod_op = Add,
      sp_factors = log_measures guide_terms @ map snd targets,
      sp_plates = elbo_plate_vars num_particles guide_terms model_terms,
      sp_eliminate =
        elbo_plate_vars num_particles guide_terms model_terms \<union> measure_vars guide_terms\<rparr>"

definition run_sp :: "'d funsor_lib \<Rightarrow> sp_call \<Rightarrow> funsor" where
  "run_sp L c =
     sum_product L (sp_sum_op c) (sp_prod_op c) (sp_factors c) (sp_plates c) (sp_eliminate c)"

definition logzq ::
  "'d funsor_lib \<Rightarrow> int \<Rightarrow> terms \<Rightarrow> terms \<Rightarrow> (var set \<times> funsor) list \<Rightarrow> funsor" where
  "logzq L num_particles guide_terms model_terms targets =
     apply_optimizer L (run_sp L (forward_call num_particles guide_terms model_terms targets))"

subsection \<open>Integration (lines 112 to 129)\<close>

text \<open>
  The method \<open>f.reduce(op, vs)\<close> of funsor, called at lines 123 and 127 with a set of
  names: it first looks every name up in \<open>f.inputs\<close>, which raises \<open>KeyError\<close> for a name
  that is no input of \<open>f\<close>; for the empty set it returns \<open>f\<close> itself; otherwise it builds
  the node \<open>Reduce(op, f, vs)\<close>.
\<close>

definition reduce :: "op \<Rightarrow> funsor \<Rightarrow> var set \<Rightarrow> error + funsor" where
  "reduce r f vs =
     (if \<not> vs \<subseteq> inputs f then Inl KeyError
      else if vs = {} then Inr f
      else Inr (Reduce r f vs))"

text \<open>The local \<open>measure_vars\<close> of line 117.\<close>

definition cost_measure_vars :: "var set \<Rightarrow> var set \<Rightarrow> funsor \<Rightarrow> var set" where
  "cost_measure_vars pv partv cost = (inputs cost - pv) - partv"

text \<open>Lines 118 to 125: the term that one cost adds to the elbo.\<close>

definition elbo_term :: "funsor \<Rightarrow> var set \<Rightarrow> var set \<Rightarrow> funsor \<Rightarrow> error + funsor" where
  "elbo_term log_measure pv partv cost =
     reduce Add (Integrate log_measure cost (cost_measure_vars pv partv cost))
       (pv \<inter> inputs cost)"

text \<open>
  The loop of line 113: \<open>targets[cost.input_vars]\<close> raises \<open>KeyError\<close> on a missing key,
  \<open>marginals[target]\<close> does what the library's object does, and \<open>elbo += ...\<close> builds a sum.
\<close>

fun integrate_costs ::
  "(var set \<times> funsor) list \<Rightarrow> (funsor \<Rightarrow> error + funsor) \<Rightarrow> var set \<Rightarrow> var set \<Rightarrow> funsor \<Rightarrow>
     funsor list \<Rightarrow> error + funsor" where
  "integrate_costs targets marginals pv partv elbo [] = Inr elbo"
| "integrate_costs targets marginals pv partv elbo (cost # cs) =
     (case map_of targets (inputs cost) of
        None \<Rightarrow> Inl KeyError
      | Some target \<Rightarrow>
          (case marginals target of
             Inl e \<Rightarrow> Inl e
           | Inr log_measure \<Rightarrow>
               (case elbo_term log_measure pv partv cost of
                  Inl e \<Rightarrow> Inl e
                | Inr t \<Rightarrow>
                    integrate_costs targets marginals pv partv (Binary Add elbo t) cs)))"

subsection \<open>The whole function\<close>

text \<open>
  Line 127 averages over the particle variable with \<open>reduce\<close>, so it raises \<open>KeyError\<close>
  when there are several particles and the elbo has no input of that name.
\<close>

definition loss_of_terms ::
  "('d::uminus) funsor_lib \<Rightarrow> int \<Rightarrow> terms \<Rightarrow> terms \<Rightarrow> error + 'd" where
  "loss_of_terms L num_particles guide_terms model_terms =
     (case costs L guide_terms model_terms of
        Inl e \<Rightarrow> Inl e
      | Inr cs \<Rightarrow>
          (let targets = make_targets [] cs;
               lz = logzq L num_particles guide_terms model_terms targets;
               marginals = adjoint L Logaddexp Add lz
           in case integrate_costs targets marginals
                  (elbo_plate_vars num_particles guide_terms model_terms)
                  (particle_var num_particles) (Number 0) cs of
                Inl e \<Rightarrow> Inl e
              | Inr elbo \<Rightarrow>
                  (case reduce Mean elbo (particle_var num_particles) of
                     Inl e \<Rightarrow> Inl e
                   | Inr avg \<Rightarrow> Inr (- to_data L (apply_optimizer L avg)))))"

definition differentiable_loss ::
  "('d::uminus) funsor_lib \<Rightarrow> int \<Rightarrow> nesting \<Rightarrow> error + 'd" where
  "differentiable_loss L num_particles mpn =
     (case particle_plate num_particles mpn of
        Inl e \<Rightarrow> Inl e
      | Inr pl \<Rightarrow>
          (case get_terms L (first_available_dim mpn) pl of
             (guide_terms, model_terms) \<Rightarrow>
               loss_of_terms L num_particles guide_terms model_terms))"

section \<open>A worked example\<close>

text \<open>
  A guide with one latent \<open>x\<close>; a model with the auxiliary latent \<open>z\<close> inside the plate
  \<open>o\<close>, and an observation inside the plates \<open>o\<close> and \<open>p\<close>. The library functions of the
  example return atoms that record the inputs left after elimination.
\<close>

definition ex_guide :: terms where
  "ex_guide = \<lparr>log_factors = [Atom ''logq_x'' {''x''}], log_measures = [Atom ''q_x'' {''x''}],
     scale = Number 1, plate_vars = {}, measure_vars = {''x''}\<rparr>"

definition ex_model :: terms where
  "ex_model = \<lparr>log_factors = [Atom ''logp_x'' {''x''}, Atom ''logp_y'' {''x'', ''z'', ''o'', ''p''}],
     log_measures = [Atom ''p_z'' {''z'', ''o''}],
     scale = Number 2, plate_vars = {''o'', ''p''}, measure_vars = {''z''}\<rparr>"

definition ex_group :: "funsor list \<times> var set" where
  "ex_group = ([Atom ''p_z'' {''z'', ''o''}, Atom ''logp_y'' {''x'', ''z'', ''o'', ''p''}], {''z''})"

definition ex_lib :: "int funsor_lib" where
  "ex_lib = \<lparr>get_terms = (\<lambda>d p. (ex_guide, ex_model)),
     sp_partition = (\<lambda>fs vs. if fs = [] then [] else [(fs, vs)]),
     partial_sum_product = (\<lambda>s p fs pl el. [Atom ''psp'' (\<Union> (set (map inputs fs)) - el)]),
     sum_product = (\<lambda>s p fs pl el. Atom ''logzq'' (\<Union> (set (map inputs fs)) - el)),
     apply_optimizer = (\<lambda>f. f),
     adjoint = (\<lambda>s p e t. Inr (Atom ''marginal'' (inputs t))),
     to_data = (\<lambda>f. 1)\<rparr>"

text \<open>
  The same guide and model run with two particles: every factor and both bundles carry
  the particle plate. The data of this example are symbolic, so that the returned loss
  shows the term it was computed from.
\<close>

datatype data = ToData funsor | NegData data

instantiation data :: uminus
begin

definition uminus_data :: "data \<Rightarrow> data" where
  "uminus_data d = NegData d"

instance ..

end

definition ex_particle_guide :: terms where
  "ex_particle_guide =
     \<lparr>log_factors = [Atom ''logq_x'' {''x'', ''num_particles_vectorized''}],
      log_measures = [Atom ''q_x'' {''x'', ''num_particles_vectorized''}],
      scale = Number 1, plate_vars = {''num_particles_vectorized''}, measure_vars = {''x''}\<rparr>"

definition ex_particle_model :: terms where
  "ex_particle_model =
     \<lparr>log_factors = [Atom ''logp_x'' {''x'', ''num_particles_vectorized''},
                     Atom ''logp_y'' {''x'', ''z'', ''o'', ''p'', ''num_particles_vectorized''}],
      log_measures = [Atom ''p_z'' {''z'', ''o'', ''num_particles_vectorized''}],
      scale = Number 2, plate_vars = {''o'', ''p'', ''num_particles_vectorized''},
      measure_vars = {''z''}\<rparr>"

definition ex_particle_lib :: "data funsor_lib" where
  "ex_particle_lib = \<lparr>get_terms = (\<lambda>d p. (ex_particle_guide, ex_particle_model)),
     sp_partition = (\<lambda>fs vs. if fs = [] then [] else [(fs, vs)]),
     partial_sum_product = (\<lambda>s p fs pl el. [Atom ''psp'' (\<Union> (set (map inputs fs)) - el)]),
     sum_product = (\<lambda>s p fs pl el. Atom ''logzq'' (\<Union> (set (map inputs fs)) - el)),
     apply_optimizer = (\<lambda>f. f),
     adjoint = (\<lambda>s p e t. Inr (Atom ''marginal'' (inputs t))),
     to_data = (\<lambda>f. ToData f)\<rparr>"

text \<open>The costs of this example, as lines 48 to 82 compute them.\<close>

definition ex_particle_costs :: "funsor list" where
  "ex_particle_costs =
     [Binary Mul (Number 2) (Atom ''psp'' {''x'', ''o'', ''num_particles_vectorized''}),
      Atom ''logp_x'' {''x'', ''num_particles_vectorized''},
      Unary Neg (Atom ''logq_x'' {''x'', ''num_particles_vectorized''})]"

text \<open>
  The marginals that the example library returns for the three costs, and the elbo that
  lines 112 to 125 build from them.
\<close>

definition ex_particle_marginals :: "funsor list" where
  "ex_particle_marginals =
     [Atom ''marginal'' {''x'', ''o'', ''num_particles_vectorized''},
      Atom ''marginal'' {''x'', ''num_particles_vectorized''},
      Atom ''marginal'' {''x'', ''num_particles_vectorized''}]"

definition ex_particle_elbo :: funsor where
  "ex_particle_elbo =
     Binary Add
       (Binary Add
          (Binary Add (Number 0)
             (Reduce Add
                (Integrate (Atom ''marginal'' {''x'', ''o'', ''num_particles_vectorized''})
                   (Binary Mul (Number 2)
                      (Atom ''psp'' {''x'', ''o'', ''num_particles_vectorized''}))
                   {''x''})
                {''o''}))
          (Integrate (Atom ''marginal'' {''x'', ''num_particles_vectorized''})
             (Atom ''logp_x'' {''x'', ''num_particles_vectorized''}) {''x''}))
       (Integrate (Atom ''marginal'' {''x'', ''num_particles_vectorized''})
          (Unary Neg (Atom ''logq_x'' {''x'', ''num_particles_vectorized''})) {''x''})"

section \<open>Lemmas about the stages\<close>

lemma contract_groups_eq:
  "contract_groups L m acc gs =
     (if \<forall>g\<in>set gs. fst g \<noteq> []
      then Inr (acc @ concat (map (\<lambda>g. map (\<lambda>f. Binary Mul (scale m) f)
                                       (run_psp L (group_call m g))) gs))
      else Inl TypeError)"
  by (induction gs arbitrary: acc) (auto simp: contract_group_def)

lemma make_targets_new:
  "map_of ts (inputs c) = None \<Longrightarrow>
   make_targets ts (c # cs) = make_targets (ts @ [(inputs c, Constant (inputs c) ZeroTensor)]) cs"
  by simp

lemma make_targets_old:
  "map_of ts (inputs c) \<noteq> None \<Longrightarrow> make_targets ts (c # cs) = make_targets ts cs"
  by auto

lemma make_targets_keys:
  "fst ` set (make_targets ts cs) = fst ` set ts \<union> inputs ` set cs"
proof (induction cs arbitrary: ts)
  case Nil
  then show ?case by simp
next
  case (Cons c cs)
  show ?case
  proof (cases "map_of ts (inputs c) = None")
    case True
    show ?thesis
      unfolding make_targets_new[OF True] Cons.IH by auto
  next
    case False
    then have "inputs c \<in> fst ` set ts" by (simp add: map_of_eq_None_iff)
    then show ?thesis
      unfolding make_targets_old[OF False] Cons.IH by auto
  qed
qed

lemma make_targets_distinct:
  "distinct (map fst ts) \<Longrightarrow> distinct (map fst (make_targets ts cs))"
proof (induction cs arbitrary: ts)
  case Nil
  then show ?case by simp
next
  case (Cons c cs)
  show ?case
  proof (cases "map_of ts (inputs c) = None")
    case True
    then have "inputs c \<notin> fst ` set ts" by (simp add: map_of_eq_None_iff)
    then have "distinct (map fst (ts @ [(inputs c, Constant (inputs c) ZeroTensor)]))"
      using Cons.prems by simp
    then show ?thesis unfolding make_targets_new[OF True] by (rule Cons.IH)
  next
    case False
    show ?thesis unfolding make_targets_old[OF False] using Cons.prems by (rule Cons.IH)
  qed
qed

lemma make_targets_values:
  "\<forall>(k, v)\<in>set ts. v = Constant k ZeroTensor \<Longrightarrow>
   \<forall>(k, v)\<in>set (make_targets ts cs). v = Constant k ZeroTensor"
proof (induction cs arbitrary: ts)
  case Nil
  then show ?case by simp
next
  case (Cons c cs)
  show ?case
  proof (cases "map_of ts (inputs c) = None")
    case True
    have "\<forall>(k, v)\<in>set (ts @ [(inputs c, Constant (inputs c) ZeroTensor)]).
            v = Constant k ZeroTensor"
      using Cons.prems by simp
    then show ?thesis unfolding make_targets_new[OF True] by (rule Cons.IH)
  next
    case False
    show ?thesis unfolding make_targets_old[OF False] using Cons.prems by (rule Cons.IH)
  qed
qed

lemma make_targets_lookup:
  assumes "distinct (map fst ts)" "\<forall>(k, v)\<in>set ts. v = Constant k ZeroTensor" "c \<in> set cs"
  shows "map_of (make_targets ts cs) (inputs c) = Some (Constant (inputs c) ZeroTensor)"
proof -
  have d: "distinct (map fst (make_targets ts cs))"
    using assms(1) by (rule make_targets_distinct)
  have "inputs c \<in> fst ` set (make_targets ts cs)"
    using assms(3) by (simp add: make_targets_keys)
  then obtain v where v: "(inputs c, v) \<in> set (make_targets ts cs)" by force
  then have "v = Constant (inputs c) ZeroTensor"
    using make_targets_values[OF assms(2), of cs] by auto
  then show ?thesis using v d by simp
qed

lemma make_targets_length:
  assumes "distinct (map fst ts)"
  shows "length (make_targets ts cs) = card (fst ` set ts \<union> inputs ` set cs)"
proof -
  have "distinct (map fst (make_targets ts cs))"
    using assms by (rule make_targets_distinct)
  then have "card (set (map fst (make_targets ts cs))) = length (make_targets ts cs)"
    using distinct_card by fastforce
  then show ?thesis by (simp add: make_targets_keys)
qed

lemma outermost_plates_mem:
  "gf \<noteq> [] \<Longrightarrow>
   x \<in> outermost_plates m gf \<longleftrightarrow> x \<in> plate_vars m \<and> (\<forall>f\<in>set gf. x \<in> inputs f)"
  by (cases gf) (auto simp: outermost_plates_def group_plates_def group_factor_vars_def)

lemma probes_of_targets:
  assumes "\<forall>(k, v)\<in>set ts. v = Constant k ZeroTensor"
  shows "map snd ts = map (\<lambda>k. Constant k ZeroTensor) (map fst ts)"
  using assms by (induction ts) auto

lemma make_targets_probes:
  "map snd (make_targets [] cs) = map (\<lambda>k. Constant k ZeroTensor) (map fst (make_targets [] cs))"
  by (rule probes_of_targets, rule make_targets_values) simp

lemma make_targets_probes_distinct: "distinct (map snd (make_targets [] cs))"
proof -
  have "distinct (map fst (make_targets [] cs))"
    by (rule make_targets_distinct) simp
  moreover have "inj_on (\<lambda>k. Constant k ZeroTensor) (set (map fst (make_targets [] cs)))"
    by (simp add: inj_on_def)
  ultimately show ?thesis
    unfolding make_targets_probes by (simp only: distinct_map simp_thms)
qed

lemma make_targets_probes_set:
  "set (map snd (make_targets [] cs)) = (\<lambda>c. Constant (inputs c) ZeroTensor) ` set cs"
proof -
  have "set (map snd (make_targets [] cs))
          = (\<lambda>k. Constant k ZeroTensor) ` (fst ` set (make_targets [] cs))"
    unfolding make_targets_probes by (simp add: image_image)
  also have "\<dots> = (\<lambda>k. Constant k ZeroTensor) ` (inputs ` set cs)"
    by (simp add: make_targets_keys)
  finally show ?thesis by (simp add: image_image)
qed

lemma elbo_term_eq:
  "elbo_term lm pv partv c =
     Inr (if pv \<inter> inputs c = {} then Integrate lm c ((inputs c - pv) - partv)
          else Reduce Add (Integrate lm c ((inputs c - pv) - partv)) (pv \<inter> inputs c))"
proof -
  have "pv \<inter> inputs c \<subseteq> inputs (Integrate lm c ((inputs c - pv) - partv))"
    by auto
  then show ?thesis
    by (simp add: elbo_term_def reduce_def cost_measure_vars_def)
qed

lemma integrate_costs_step:
  assumes "map_of T (inputs c) = Some p"
  shows "integrate_costs T M pv partv elbo (c # cs) =
     (case M p of
        Inl e \<Rightarrow> Inl e
      | Inr lm \<Rightarrow>
          integrate_costs T M pv partv
            (Binary Add elbo
               (if pv \<inter> inputs c = {} then Integrate lm c ((inputs c - pv) - partv)
                else Reduce Add (Integrate lm c ((inputs c - pv) - partv)) (pv \<inter> inputs c)))
            cs)"
  using assms by (simp add: elbo_term_eq split: sum.splits)

lemma integrate_costs_iff:
  assumes "\<forall>c\<in>set cs. map_of T (inputs c) = Some (P c)"
  shows "integrate_costs T M pv partv elbo cs = Inr r \<longleftrightarrow>
     (\<exists>lms. list_all2 (\<lambda>c lm. M (P c) = Inr lm) cs lms \<and>
        r = foldl (\<lambda>acc (c, lm). Binary Add acc
                     (if pv \<inter> inputs c = {} then Integrate lm c ((inputs c - pv) - partv)
                      else Reduce Add (Integrate lm c ((inputs c - pv) - partv))
                             (pv \<inter> inputs c)))
              elbo (zip cs lms))"
proof -
  define F where "F = (\<lambda>acc (c, lm). Binary Add acc
                     (if pv \<inter> inputs c = {} then Integrate lm c ((inputs c - pv) - partv)
                      else Reduce Add (Integrate lm c ((inputs c - pv) - partv))
                             (pv \<inter> inputs c)))"
  have step: "integrate_costs T M pv partv e (c # cs') =
          (case M p of Inl x \<Rightarrow> Inl x
           | Inr lm \<Rightarrow> integrate_costs T M pv partv (F e (c, lm)) cs')"
    if "map_of T (inputs c) = Some p" for e c cs' p
  proof (cases "M p")
    case (Inl x)
    then show ?thesis
      by (simp add: integrate_costs_step[OF that] del: integrate_costs.simps)
  next
    case (Inr lm)
    then show ?thesis
      by (simp add: F_def integrate_costs_step[OF that] del: integrate_costs.simps)
  qed
  have "integrate_costs T M pv partv elbo cs = Inr r \<longleftrightarrow>
     (\<exists>lms. list_all2 (\<lambda>c lm. M (P c) = Inr lm) cs lms \<and> r = foldl F elbo (zip cs lms))"
    using assms
  proof (induction cs arbitrary: elbo)
    case Nil
    then show ?case by auto
  next
    case (Cons c cs)
    have p: "map_of T (inputs c) = Some (P c)" using Cons.prems by simp
    have rest: "\<forall>c\<in>set cs. map_of T (inputs c) = Some (P c)" using Cons.prems by simp
    note IH = Cons.IH[OF rest]
    show ?case
    proof (cases "M (P c)")
      case (Inl e)
      have "integrate_costs T M pv partv elbo (c # cs) = Inl e"
        unfolding step[OF p] Inl by simp
      moreover have "\<not> (\<exists>lms. list_all2 (\<lambda>c lm. M (P c) = Inr lm) (c # cs) lms
                           \<and> r = foldl F elbo (zip (c # cs) lms))"
        using Inl by (auto simp: list_all2_Cons1)
      ultimately show ?thesis by simp
    next
      case (Inr lm)
      have l: "integrate_costs T M pv partv elbo (c # cs)
                 = integrate_costs T M pv partv (F elbo (c, lm)) cs"
        unfolding step[OF p] Inr by simp
      show ?thesis
      proof
        assume "integrate_costs T M pv partv elbo (c # cs) = Inr r"
        then have "integrate_costs T M pv partv (F elbo (c, lm)) cs = Inr r"
          using l by simp
        then obtain lms where a: "list_all2 (\<lambda>c lm. M (P c) = Inr lm) cs lms"
          and b: "r = foldl F (F elbo (c, lm)) (zip cs lms)"
          using IH by blast
        have "list_all2 (\<lambda>c lm. M (P c) = Inr lm) (c # cs) (lm # lms)"
          using a Inr by simp
        moreover have "r = foldl F elbo (zip (c # cs) (lm # lms))" using b by simp
        ultimately show "\<exists>lms. list_all2 (\<lambda>c lm. M (P c) = Inr lm) (c # cs) lms
                           \<and> r = foldl F elbo (zip (c # cs) lms)"
          by blast
      next
        assume "\<exists>lms. list_all2 (\<lambda>c lm. M (P c) = Inr lm) (c # cs) lms
                           \<and> r = foldl F elbo (zip (c # cs) lms)"
        then obtain lms where a: "list_all2 (\<lambda>c lm. M (P c) = Inr lm) (c # cs) lms"
          and b: "r = foldl F elbo (zip (c # cs) lms)"
          by blast
        from a obtain lm' lms' where c: "lms = lm' # lms'" and d: "M (P c) = Inr lm'"
          and e: "list_all2 (\<lambda>c lm. M (P c) = Inr lm) cs lms'"
          by (auto simp: list_all2_Cons1)
        from d Inr have f: "lm' = lm" by simp
        have "r = foldl F (F elbo (c, lm)) (zip cs lms')" using b c f by simp
        then have "integrate_costs T M pv partv (F elbo (c, lm)) cs = Inr r"
          using IH e by blast
        then show "integrate_costs T M pv partv elbo (c # cs) = Inr r" using l by simp
      qed
    qed
  qed
  then show ?thesis unfolding F_def .
qed

lemma integrate_costs_error:
  assumes "\<forall>c\<in>set cs. map_of T (inputs c) = Some (P c)"
    and "integrate_costs T M pv partv elbo cs = Inl e"
  shows "\<exists>c\<in>set cs. M (P c) = Inl e"
  using assms
proof (induction cs arbitrary: elbo)
  case Nil
  then show ?case by simp
next
  case (Cons c cs)
  have p: "map_of T (inputs c) = Some (P c)" using Cons.prems by simp
  show ?case
  proof (cases "M (P c)")
    case (Inl e')
    then show ?thesis using Cons.prems(2)
      by (simp add: integrate_costs_step[OF p] del: integrate_costs.simps)
  next
    case (Inr lm)
    have rest: "\<forall>c\<in>set cs. map_of T (inputs c) = Some (P c)" using Cons.prems(1) by simp
    have "integrate_costs T M pv partv
            (Binary Add elbo
               (if pv \<inter> inputs c = {} then Integrate lm c ((inputs c - pv) - partv)
                else Reduce Add (Integrate lm c ((inputs c - pv) - partv)) (pv \<inter> inputs c)))
            cs = Inl e"
      using Cons.prems(2) Inr
      by (simp add: integrate_costs_step[OF p] del: integrate_costs.simps)
    then have "\<exists>c\<in>set cs. M (P c) = Inl e" by (rule Cons.IH[OF rest])
    then show ?thesis by auto
  qed
qed

lemma make_targets_lookup_all:
  "\<forall>c\<in>set cs. map_of (make_targets [] cs) (inputs c) = Some (Constant (inputs c) ZeroTensor)"
  using make_targets_lookup[of "[]" _ cs] by simp

lemma same_signature_same_marginal:
  assumes "list_all2 (\<lambda>c lm. M (Constant (inputs c) ZeroTensor) = Inr lm) cs lms"
  shows "\<forall>i<length cs. \<forall>j<length cs. inputs (cs ! i) = inputs (cs ! j) \<longrightarrow> lms ! i = lms ! j"
proof (intro allI impI)
  fix i j
  assume i: "i < length cs" and j: "j < length cs" and eq: "inputs (cs ! i) = inputs (cs ! j)"
  have "M (Constant (inputs (cs ! i)) ZeroTensor) = Inr (lms ! i)"
    using assms i by (simp add: list_all2_conv_all_nth)
  moreover have "M (Constant (inputs (cs ! j)) ZeroTensor) = Inr (lms ! j)"
    using assms j by (simp add: list_all2_conv_all_nth)
  ultimately show "lms ! i = lms ! j" using eq by simp
qed

lemma integrate_costs_targets:
  "integrate_costs (make_targets [] cs) M pv partv elbo cs = Inr r \<longleftrightarrow>
     (\<exists>lms. list_all2 (\<lambda>c lm. M (Constant (inputs c) ZeroTensor) = Inr lm) cs lms \<and>
        r = foldl (\<lambda>acc (c, lm). Binary Add acc
                     (if pv \<inter> inputs c = {} then Integrate lm c ((inputs c - pv) - partv)
                      else Reduce Add (Integrate lm c ((inputs c - pv) - partv))
                             (pv \<inter> inputs c)))
              elbo (zip cs lms))"
  by (rule integrate_costs_iff) (rule make_targets_lookup_all)

lemma loss_of_terms_unfold:
  "loss_of_terms L np g m =
     (case costs L g m of
        Inl e \<Rightarrow> Inl e
      | Inr cs \<Rightarrow>
          (case integrate_costs (make_targets [] cs)
                  (adjoint L Logaddexp Add (logzq L np g m (make_targets [] cs)))
                  (elbo_plate_vars np g m) (particle_var np) (Number 0) cs of
             Inl e \<Rightarrow> Inl e
           | Inr elbo \<Rightarrow>
               (case reduce Mean elbo (particle_var np) of
                  Inl e \<Rightarrow> Inl e
                | Inr avg \<Rightarrow> Inr (- to_data L (apply_optimizer L avg)))))"
  by (cases "costs L g m") (simp_all add: loss_of_terms_def Let_def)

lemma reduce_Inr_iff:
  "reduce r f vs = Inr t \<longleftrightarrow> vs \<subseteq> inputs f \<and> t = (if vs = {} then f else Reduce r f vs)"
  by (auto simp: reduce_def)

section \<open>Scaling of the contracted costs\<close>

text \<open>
  Claim C2, as amended. The contraction succeeds exactly when no group is empty, and then
  the contracted costs are, group after group in the order of the partition, the factors
  that \<open>partial_sum_product\<close> returns for the group, each multiplied by the scale of the
  model's bundle: the cost is the node \<open>scale * f\<close> (line 78), a product of the scale and
  the log-factor, and not their sum.
\<close>

theorem contracted_costs_scaled:
  "contracted_costs L g m =
     (if \<forall>grp\<in>set (model_groups L g m). fst grp \<noteq> []
      then Inr (concat (map (\<lambda>grp. map (\<lambda>f. Binary Mul (scale m) f)
                                 (partial_sum_product L Logaddexp Add (fst grp)
                                    (group_plates m (fst grp))
                                    (snd grp \<union> elim_plates m (fst grp))))
                         (model_groups L g m)))
      else Inl TypeError)"
  by (simp add: contracted_costs_def contract_groups_eq run_psp_def group_call_def)

theorem contracted_costs_scaled_witness:
  "contracted_costs ex_lib ex_guide ex_model =
     Inr [Binary Mul (Number 2) (Atom ''psp'' {''x'', ''o''})]"
proof -
  have ne: "\<forall>grp\<in>set (model_groups ex_lib ex_guide ex_model). fst grp \<noteq> []"
    by code_simp
  have ev: "concat (map (\<lambda>grp. map (\<lambda>f. Binary Mul (scale ex_model) f)
                                 (partial_sum_product ex_lib Logaddexp Add (fst grp)
                                    (group_plates ex_model (fst grp))
                                    (snd grp \<union> elim_plates ex_model (fst grp))))
                         (model_groups ex_lib ex_guide ex_model))
            = [Binary Mul (Number 2) (Atom ''psp'' {''x'', ''o''})]"
    by code_simp
  show ?thesis
    using contracted_costs_scaled[of ex_lib ex_guide ex_model] ne ev by simp
qed

text \<open>
  Claim C2 as it is stated says that the scale is added to each factor. In the worked
  example the contracted costs are not the list of sums \<open>scale + f\<close>.
\<close>

theorem scale_added_counterexample:
  "\<not> (contracted_costs ex_lib ex_guide ex_model =
        Inr (concat (map (\<lambda>grp. map (\<lambda>f. Binary Add (scale ex_model) f)
                                 (run_psp ex_lib (group_call ex_model grp)))
                      (model_groups ex_lib ex_guide ex_model))))"
  by code_simp

section \<open>Plates of a group\<close>

text \<open>
  Claim C3. For a group with at least one factor, the plates of the group are the model's
  plate variables that occur in some factor of the group; the outermost plates are the
  intersection over the factors of the group of the factor's inputs restricted to the
  group's plates (equally, to the model's plates); the plates to eliminate are the group's
  plates minus the outermost ones; and \<open>partial_sum_product\<close> is called with the group's
  plates and with the group's variables united with the plates to eliminate. An outermost
  plate is never one of the plates to eliminate, so it is in the eliminated set only when
  it is one of the group's own elimination variables; when these are no plate variables
  (the partition draws them from the measure variables), no outermost plate is eliminated.
\<close>

theorem group_plate_elimination:
  assumes "fst g \<noteq> []"
  shows "contract_group L m g =
           Inr (map (\<lambda>f. Binary Mul (scale m) f)
                  (partial_sum_product L Logaddexp Add (fst g) (group_plates m (fst g))
                     (snd g \<union> elim_plates m (fst g))))
       \<and> group_plates m (fst g) = plate_vars m \<inter> (\<Union>f\<in>set (fst g). inputs f)
       \<and> outermost_plates m (fst g) = (\<Inter>f\<in>set (fst g). inputs f \<inter> group_plates m (fst g))
       \<and> outermost_plates m (fst g) = (\<Inter>f\<in>set (fst g). inputs f \<inter> plate_vars m)
       \<and> elim_plates m (fst g) = group_plates m (fst g) - outermost_plates m (fst g)
       \<and> psp_eliminate (group_call m g) = snd g \<union> elim_plates m (fst g)
       \<and> outermost_plates m (fst g) \<inter> elim_plates m (fst g) = {}
       \<and> outermost_plates m (fst g) \<inter> psp_eliminate (group_call m g)
           = outermost_plates m (fst g) \<inter> snd g
       \<and> (snd g \<inter> plate_vars m = {} \<longrightarrow>
            outermost_plates m (fst g) \<inter> psp_eliminate (group_call m g) = {})"
proof -
  have a: "contract_group L m g =
           Inr (map (\<lambda>f. Binary Mul (scale m) f)
                  (partial_sum_product L Logaddexp Add (fst g) (group_plates m (fst g))
                     (snd g \<union> elim_plates m (fst g))))"
    using assms by (simp add: contract_group_def run_psp_def group_call_def)
  have b: "group_plates m (fst g) = plate_vars m \<inter> (\<Union>f\<in>set (fst g). inputs f)"
    by (simp add: group_plates_def group_factor_vars_def)
  have c: "outermost_plates m (fst g) = (\<Inter>f\<in>set (fst g). inputs f \<inter> group_plates m (fst g))"
    by (simp add: outermost_plates_def)
  have d: "outermost_plates m (fst g) = (\<Inter>f\<in>set (fst g). inputs f \<inter> plate_vars m)"
    using outermost_plates_mem[OF assms, of _ m] assms by (cases "fst g") auto
  have e: "elim_plates m (fst g) = group_plates m (fst g) - outermost_plates m (fst g)"
    by (simp add: elim_plates_def)
  have f: "psp_eliminate (group_call m g) = snd g \<union> elim_plates m (fst g)"
    by (simp add: group_call_def)
  have h: "outermost_plates m (fst g) \<inter> elim_plates m (fst g) = {}"
    by (auto simp: elim_plates_def)
  have i: "outermost_plates m (fst g) \<inter> psp_eliminate (group_call m g)
           = outermost_plates m (fst g) \<inter> snd g"
    unfolding f using h by blast
  have j: "snd g \<inter> plate_vars m = {} \<longrightarrow>
            outermost_plates m (fst g) \<inter> psp_eliminate (group_call m g) = {}"
    unfolding i using outermost_plates_mem[OF assms, of _ m] by blast
  show ?thesis using a b c d e f h i j by blast
qed

theorem group_plate_elimination_witness:
  "contract_group ex_lib ex_model ex_group = Inr [Binary Mul (Number 2) (Atom ''psp'' {''x'', ''o''})]
   \<and> group_plates ex_model (fst ex_group) = {''o'', ''p''}
   \<and> outermost_plates ex_model (fst ex_group) = {''o''}
   \<and> elim_plates ex_model (fst ex_group) = {''p''}
   \<and> psp_eliminate (group_call ex_model ex_group) = {''z'', ''p''}
   \<and> outermost_plates ex_model (fst ex_group) \<inter> psp_eliminate (group_call ex_model ex_group) = {}"
proof -
  have ne: "fst ex_group \<noteq> []" by code_simp
  have dj: "snd ex_group \<inter> plate_vars ex_model = {}" by code_simp
  have ev: "map (\<lambda>f. Binary Mul (scale ex_model) f)
                  (partial_sum_product ex_lib Logaddexp Add (fst ex_group)
                     (group_plates ex_model (fst ex_group))
                     (snd ex_group \<union> elim_plates ex_model (fst ex_group)))
            = [Binary Mul (Number 2) (Atom ''psp'' {''x'', ''o''})]"
    by code_simp
  have s1: "plate_vars ex_model \<inter> (\<Union>f\<in>set (fst ex_group). inputs f) = {''o'', ''p''}"
    by code_simp
  have s2: "(\<Inter>f\<in>set (fst ex_group). inputs f \<inter> plate_vars ex_model) = {''o''}"
    by code_simp
  have s3: "{''o'', ''p''} - {''o''} = {''p''}" by code_simp
  have s4: "snd ex_group \<union> {''p''} = {''z'', ''p''}" by code_simp
  note t = group_plate_elimination[OF ne, of ex_lib ex_model]
  note t1 = t[THEN conjunct1]
  note t2 = t[THEN conjunct2, THEN conjunct1]
  note t4 = t[THEN conjunct2, THEN conjunct2, THEN conjunct2, THEN conjunct1]
  note t5 = t[THEN conjunct2, THEN conjunct2, THEN conjunct2, THEN conjunct2, THEN conjunct1]
  note t6 = t[THEN conjunct2, THEN conjunct2, THEN conjunct2, THEN conjunct2, THEN conjunct2,
      THEN conjunct1]
  note t9 = t[THEN conjunct2, THEN conjunct2, THEN conjunct2, THEN conjunct2, THEN conjunct2,
      THEN conjunct2, THEN conjunct2, THEN conjunct2]
  have w1: "contract_group ex_lib ex_model ex_group
              = Inr [Binary Mul (Number 2) (Atom ''psp'' {''x'', ''o''})]"
    using t1 ev by (simp only:)
  have w2: "group_plates ex_model (fst ex_group) = {''o'', ''p''}"
    using t2 s1 by (simp only:)
  have w3: "outermost_plates ex_model (fst ex_group) = {''o''}"
    using t4 s2 by (simp only:)
  have w4: "elim_plates ex_model (fst ex_group) = {''p''}"
    using t5 w2 w3 s3 by (simp only:)
  have w5: "psp_eliminate (group_call ex_model ex_group) = {''z'', ''p''}"
    using t6 w4 s4 by (simp only:)
  have w6: "outermost_plates ex_model (fst ex_group)
              \<inter> psp_eliminate (group_call ex_model ex_group) = {}"
    using t9 dj by (rule mp)
  show ?thesis using w1 w2 w3 w4 w5 w6 by (simp only: simp_thms)
qed

section \<open>Accumulation of the costs\<close>

text \<open>
  Claim C8. The costs exist exactly when the partial elimination succeeds on the partition
  of the model's log-measures followed by those model log-factors whose inputs meet the
  model-only measure variables (the model's measure variables minus the guide's); the cost
  list is then the contracted costs, followed by the remaining model log-factors unchanged
  and in their order, followed by every log-factor of the guide negated.
\<close>

theorem costs_signed_split:
  "costs L g m = Inr cs \<longleftrightarrow>
     (\<exists>cc. contract_groups L m []
             (sp_partition L
                (log_measures m @
                   filter (\<lambda>f. (measure_vars m - measure_vars g) \<inter> inputs f \<noteq> {}) (log_factors m))
                (measure_vars m)) = Inr cc
         \<and> cs = cc @ filter (\<lambda>f. (measure_vars m - measure_vars g) \<inter> inputs f = {}) (log_factors m)
                @ map (\<lambda>f. Unary Neg f) (log_factors g))"
  by (auto simp: costs_def costs_of_def contracted_costs_def model_groups_def
      contracted_factors_def uncontracted_factors_def model_measure_vars_def split: sum.splits)

theorem costs_signed_split_witness:
  "costs ex_lib ex_guide ex_model =
     Inr [Binary Mul (Number 2) (Atom ''psp'' {''x'', ''o''}), Atom ''logp_x'' {''x''},
          Unary Neg (Atom ''logq_x'' {''x''})]"
proof -
  have "contract_groups ex_lib ex_model []
          (sp_partition ex_lib
             (log_measures ex_model @
                filter (\<lambda>f. (measure_vars ex_model - measure_vars ex_guide) \<inter> inputs f \<noteq> {})
                  (log_factors ex_model))
             (measure_vars ex_model)) = Inr [Binary Mul (Number 2) (Atom ''psp'' {''x'', ''o''})]
       \<and> [Binary Mul (Number 2) (Atom ''psp'' {''x'', ''o''}), Atom ''logp_x'' {''x''},
          Unary Neg (Atom ''logq_x'' {''x''})] =
         [Binary Mul (Number 2) (Atom ''psp'' {''x'', ''o''})]
           @ filter (\<lambda>f. (measure_vars ex_model - measure_vars ex_guide) \<inter> inputs f = {})
               (log_factors ex_model)
           @ map (\<lambda>f. Unary Neg f) (log_factors ex_guide)"
    by code_simp
  then show ?thesis
    using costs_signed_split[of ex_lib ex_guide ex_model] by blast
qed

section \<open>Probes\<close>

text \<open>
  Claim C6. The probes built from a list of costs have pairwise different keys, the keys
  are exactly the input signatures of the costs, so there is one probe for each distinct
  signature, and the probe stored under a key is the zero tensor made constant over
  exactly that signature. Every cost finds the probe of its own signature. The loop of
  line 113 succeeds exactly when the marginal map has an entry for the probe of every
  cost; the marginal it integrates a cost against is the entry of the probe of the cost's
  signature, so two costs with equal signatures are integrated against the same marginal,
  and its result is the sum of the terms built from these marginals.
\<close>

theorem probes_deduplicated:
  "distinct (map fst (make_targets [] cs))
   \<and> fst ` set (make_targets [] cs) = inputs ` set cs
   \<and> length (make_targets [] cs) = card (inputs ` set cs)
   \<and> (\<forall>(k, v)\<in>set (make_targets [] cs). v = Constant k ZeroTensor)
   \<and> (\<forall>c\<in>set cs. map_of (make_targets [] cs) (inputs c) = Some (Constant (inputs c) ZeroTensor))
   \<and> (integrate_costs (make_targets [] cs) M pv partv elbo cs = Inr r \<longleftrightarrow>
        (\<exists>lms. list_all2 (\<lambda>c lm. M (Constant (inputs c) ZeroTensor) = Inr lm) cs lms
           \<and> (\<forall>i<length cs. \<forall>j<length cs. inputs (cs ! i) = inputs (cs ! j) \<longrightarrow> lms ! i = lms ! j)
           \<and> r = foldl (\<lambda>acc (c, lm). Binary Add acc
                     (if pv \<inter> inputs c = {} then Integrate lm c ((inputs c - pv) - partv)
                      else Reduce Add (Integrate lm c ((inputs c - pv) - partv))
                             (pv \<inter> inputs c)))
                 elbo (zip cs lms)))"
proof -
  have d: "distinct (map fst ([] :: (var set \<times> funsor) list))" by simp
  have v: "\<forall>(k, v)\<in>set ([] :: (var set \<times> funsor) list). v = Constant k ZeroTensor" by simp
  have a: "distinct (map fst (make_targets [] cs))" using d by (rule make_targets_distinct)
  have b: "fst ` set (make_targets [] cs) = inputs ` set cs" by (simp add: make_targets_keys)
  have c: "length (make_targets [] cs) = card (inputs ` set cs)"
    using make_targets_length[OF d, of cs] by simp
  have e: "\<forall>(k, v)\<in>set (make_targets [] cs). v = Constant k ZeroTensor"
    using v by (rule make_targets_values)
  have f: "\<forall>c\<in>set cs. map_of (make_targets [] cs) (inputs c)
             = Some (Constant (inputs c) ZeroTensor)"
    by (rule make_targets_lookup_all)
  have g: "integrate_costs (make_targets [] cs) M pv partv elbo cs = Inr r \<longleftrightarrow>
        (\<exists>lms. list_all2 (\<lambda>c lm. M (Constant (inputs c) ZeroTensor) = Inr lm) cs lms
           \<and> (\<forall>i<length cs. \<forall>j<length cs. inputs (cs ! i) = inputs (cs ! j) \<longrightarrow> lms ! i = lms ! j)
           \<and> r = foldl (\<lambda>acc (c, lm). Binary Add acc
                     (if pv \<inter> inputs c = {} then Integrate lm c ((inputs c - pv) - partv)
                      else Reduce Add (Integrate lm c ((inputs c - pv) - partv))
                             (pv \<inter> inputs c)))
                 elbo (zip cs lms))"
    unfolding integrate_costs_targets using same_signature_same_marginal[of M cs] by blast
  show ?thesis using a b c e f g by blast
qed

theorem probes_deduplicated_witness:
  "length (make_targets [] ex_particle_costs) = 2
   \<and> map_of (make_targets [] ex_particle_costs)
        (inputs (Atom ''logp_x'' {''x'', ''num_particles_vectorized''}))
       = Some (Constant {''x'', ''num_particles_vectorized''} ZeroTensor)
   \<and> map_of (make_targets [] ex_particle_costs)
        (inputs (Unary Neg (Atom ''logq_x'' {''x'', ''num_particles_vectorized''})))
       = Some (Constant {''x'', ''num_particles_vectorized''} ZeroTensor)
   \<and> integrate_costs (make_targets [] ex_particle_costs)
        (adjoint ex_particle_lib Logaddexp Add (Atom ''logzq'' {''num_particles_vectorized''}))
        {''o'', ''p''} {''num_particles_vectorized''} (Number 0) ex_particle_costs
       = Inr ex_particle_elbo"
proof -
  let ?M = "adjoint ex_particle_lib Logaddexp Add (Atom ''logzq'' {''num_particles_vectorized''})"
  note t = probes_deduplicated[of ex_particle_costs ?M "{''o'', ''p''}"
      "{''num_particles_vectorized''}" "Number 0" ex_particle_elbo]
  note t3 = t[THEN conjunct2, THEN conjunct2, THEN conjunct1]
  note t5 = t[THEN conjunct2, THEN conjunct2, THEN conjunct2, THEN conjunct2, THEN conjunct1]
  note t6 = t[THEN conjunct2, THEN conjunct2, THEN conjunct2, THEN conjunct2, THEN conjunct2]
  have m1: "Atom ''logp_x'' {''x'', ''num_particles_vectorized''} \<in> set ex_particle_costs"
    by code_simp
  have m2: "Unary Neg (Atom ''logq_x'' {''x'', ''num_particles_vectorized''})
              \<in> set ex_particle_costs"
    by code_simp
  have k: "card (inputs ` set ex_particle_costs) = 2" by code_simp
  have w1: "length (make_targets [] ex_particle_costs) = 2" using t3 k by (simp only:)
  have w2: "map_of (make_targets [] ex_particle_costs)
        (inputs (Atom ''logp_x'' {''x'', ''num_particles_vectorized''}))
       = Some (Constant {''x'', ''num_particles_vectorized''} ZeroTensor)"
    using t5 m1 by force
  have w3: "map_of (make_targets [] ex_particle_costs)
        (inputs (Unary Neg (Atom ''logq_x'' {''x'', ''num_particles_vectorized''})))
       = Some (Constant {''x'', ''num_particles_vectorized''} ZeroTensor)"
    using t5 m2 by force
  have l: "list_all2 (\<lambda>c lm. ?M (Constant (inputs c) ZeroTensor) = Inr lm)
             ex_particle_costs ex_particle_marginals"
    by code_simp
  have q: "\<forall>i<length ex_particle_costs. \<forall>j<length ex_particle_costs.
             inputs (ex_particle_costs ! i) = inputs (ex_particle_costs ! j) \<longrightarrow>
             ex_particle_marginals ! i = ex_particle_marginals ! j"
    using l by (rule same_signature_same_marginal)
  have e: "ex_particle_elbo = foldl (\<lambda>acc (c, lm). Binary Add acc
                     (if {''o'', ''p''} \<inter> inputs c = {}
                      then Integrate lm c ((inputs c - {''o'', ''p''}) - {''num_particles_vectorized''})
                      else Reduce Add
                             (Integrate lm c
                                ((inputs c - {''o'', ''p''}) - {''num_particles_vectorized''}))
                             ({''o'', ''p''} \<inter> inputs c)))
                 (Number 0) (zip ex_particle_costs ex_particle_marginals)"
    by code_simp
  have w4: "integrate_costs (make_targets [] ex_particle_costs) ?M
        {''o'', ''p''} {''num_particles_vectorized''} (Number 0) ex_particle_costs
       = Inr ex_particle_elbo"
    using t6 l q e by blast
  show ?thesis using w1 w2 w3 w4 by (simp only: simp_thms)
qed

section \<open>The forward contraction\<close>

text \<open>
  Claim C4, as amended. \<open>logzq\<close> is the optimised result of one call of \<open>sum_product\<close>
  with the sum operation \<open>logaddexp\<close> and the product operation \<open>add\<close>; its factors are the
  guide's log-measures followed by the probes, one for each signature of a cost; its plates
  are the plate variables of line 44 and it eliminates these plate variables together with
  the guide's measure variables. The particle plate is never among these plate variables,
  and it is eliminated only if it is a measure variable of the guide. The probe of a cost
  has the cost's inputs as its signature, and the variables of that signature which the
  contraction eliminates are the cost's inputs among the plate variables and the guide's
  measure variables; they need not be none.
\<close>

theorem forward_contraction_eliminates:
  "logzq L np g m (make_targets [] cs) =
     apply_optimizer L
       (sum_product L Logaddexp Add
          (log_measures g @ map snd (make_targets [] cs))
          ((plate_vars g \<union> plate_vars m) - particle_var np)
          (((plate_vars g \<union> plate_vars m) - particle_var np) \<union> measure_vars g))
   \<and> set (map snd (make_targets [] cs)) = (\<lambda>c. Constant (inputs c) ZeroTensor) ` set cs
   \<and> distinct (map snd (make_targets [] cs))
   \<and> sp_eliminate (forward_call np g m (make_targets [] cs))
        = ((plate_vars g \<union> plate_vars m) - particle_var np) \<union> measure_vars g
   \<and> particle_var np \<inter> sp_plates (forward_call np g m (make_targets [] cs)) = {}
   \<and> particle_var np \<inter> sp_eliminate (forward_call np g m (make_targets [] cs))
        = particle_var np \<inter> measure_vars g
   \<and> (\<forall>c\<in>set cs.
         map_of (make_targets [] cs) (inputs c) = Some (Constant (inputs c) ZeroTensor)
       \<and> inputs (Constant (inputs c) ZeroTensor) = inputs c
       \<and> sp_eliminate (forward_call np g m (make_targets [] cs))
             \<inter> inputs (Constant (inputs c) ZeroTensor)
           = inputs c \<inter> (((plate_vars g \<union> plate_vars m) - particle_var np) \<union> measure_vars g))"
proof -
  have a: "logzq L np g m (make_targets [] cs) =
     apply_optimizer L
       (sum_product L Logaddexp Add
          (log_measures g @ map snd (make_targets [] cs))
          ((plate_vars g \<union> plate_vars m) - particle_var np)
          (((plate_vars g \<union> plate_vars m) - particle_var np) \<union> measure_vars g))"
    by (simp add: logzq_def run_sp_def forward_call_def elbo_plate_vars_def)
  have d: "sp_eliminate (forward_call np g m (make_targets [] cs))
        = ((plate_vars g \<union> plate_vars m) - particle_var np) \<union> measure_vars g"
    by (simp add: forward_call_def elbo_plate_vars_def)
  have e: "particle_var np \<inter> sp_plates (forward_call np g m (make_targets [] cs)) = {}"
    by (auto simp: forward_call_def elbo_plate_vars_def)
  have f: "particle_var np \<inter> sp_eliminate (forward_call np g m (make_targets [] cs))
        = particle_var np \<inter> measure_vars g"
    unfolding d by auto
  have h: "\<forall>c\<in>set cs.
         map_of (make_targets [] cs) (inputs c) = Some (Constant (inputs c) ZeroTensor)
       \<and> inputs (Constant (inputs c) ZeroTensor) = inputs c
       \<and> sp_eliminate (forward_call np g m (make_targets [] cs))
             \<inter> inputs (Constant (inputs c) ZeroTensor)
           = inputs c \<inter> (((plate_vars g \<union> plate_vars m) - particle_var np) \<union> measure_vars g)"
    unfolding d using make_targets_lookup_all[of cs] by auto
  show ?thesis
    using a make_targets_probes_set[of cs] make_targets_probes_distinct[of cs] d e f h
    by blast
qed

theorem forward_contraction_eliminates_witness:
  "costs ex_particle_lib ex_particle_guide ex_particle_model = Inr ex_particle_costs
   \<and> logzq ex_particle_lib 2 ex_particle_guide ex_particle_model
        (make_targets [] ex_particle_costs)
       = Atom ''logzq'' {''num_particles_vectorized''}
   \<and> sp_eliminate (forward_call 2 ex_particle_guide ex_particle_model
                      (make_targets [] ex_particle_costs)) = {''o'', ''p'', ''x''}
   \<and> map_of (make_targets [] ex_particle_costs)
        (inputs (Atom ''logp_x'' {''x'', ''num_particles_vectorized''}))
       = Some (Constant {''x'', ''num_particles_vectorized''} ZeroTensor)
   \<and> sp_eliminate (forward_call 2 ex_particle_guide ex_particle_model
                      (make_targets [] ex_particle_costs))
        \<inter> inputs (Constant (inputs (Atom ''logp_x'' {''x'', ''num_particles_vectorized''}))
                    ZeroTensor) = {''x''}"
proof -
  note t = forward_contraction_eliminates[of ex_particle_lib 2 ex_particle_guide
      ex_particle_model ex_particle_costs]
  note t1 = t[THEN conjunct1]
  note t4 = t[THEN conjunct2, THEN conjunct2, THEN conjunct2, THEN conjunct1]
  note t7 = t[THEN conjunct2, THEN conjunct2, THEN conjunct2, THEN conjunct2, THEN conjunct2,
      THEN conjunct2]
  have c: "costs ex_particle_lib ex_particle_guide ex_particle_model = Inr ex_particle_costs"
    by code_simp
  have m1: "Atom ''logp_x'' {''x'', ''num_particles_vectorized''} \<in> set ex_particle_costs"
    by code_simp
  have ev: "apply_optimizer ex_particle_lib
       (sum_product ex_particle_lib Logaddexp Add
          (log_measures ex_particle_guide @ map snd (make_targets [] ex_particle_costs))
          ((plate_vars ex_particle_guide \<union> plate_vars ex_particle_model) - particle_var 2)
          (((plate_vars ex_particle_guide \<union> plate_vars ex_particle_model) - particle_var 2)
             \<union> measure_vars ex_particle_guide))
        = Atom ''logzq'' {''num_particles_vectorized''}"
    by code_simp
  have s2: "((plate_vars ex_particle_guide \<union> plate_vars ex_particle_model) - particle_var 2)
              \<union> measure_vars ex_particle_guide = {''o'', ''p'', ''x''}"
    by code_simp
  have s3: "inputs (Atom ''logp_x'' {''x'', ''num_particles_vectorized''})
              = {''x'', ''num_particles_vectorized''}"
    by simp
  have s4: "{''x'', ''num_particles_vectorized''} \<inter> {''o'', ''p'', ''x''} = {''x''}"
    by code_simp
  have w1: "logzq ex_particle_lib 2 ex_particle_guide ex_particle_model
              (make_targets [] ex_particle_costs) = Atom ''logzq'' {''num_particles_vectorized''}"
    using t1 ev by (simp only:)
  have w2: "sp_eliminate (forward_call 2 ex_particle_guide ex_particle_model
                      (make_targets [] ex_particle_costs)) = {''o'', ''p'', ''x''}"
    using t4 s2 by (simp only:)
  from t7 m1 have u: "map_of (make_targets [] ex_particle_costs)
        (inputs (Atom ''logp_x'' {''x'', ''num_particles_vectorized''}))
       = Some (Constant (inputs (Atom ''logp_x'' {''x'', ''num_particles_vectorized''})) ZeroTensor)
     \<and> sp_eliminate (forward_call 2 ex_particle_guide ex_particle_model
                      (make_targets [] ex_particle_costs))
        \<inter> inputs (Constant (inputs (Atom ''logp_x'' {''x'', ''num_particles_vectorized''}))
                    ZeroTensor)
       = inputs (Atom ''logp_x'' {''x'', ''num_particles_vectorized''})
           \<inter> (((plate_vars ex_particle_guide \<union> plate_vars ex_particle_model) - particle_var 2)
                \<union> measure_vars ex_particle_guide)"
    by blast
  have w3: "map_of (make_targets [] ex_particle_costs)
        (inputs (Atom ''logp_x'' {''x'', ''num_particles_vectorized''}))
       = Some (Constant {''x'', ''num_particles_vectorized''} ZeroTensor)"
    using u[THEN conjunct1] s3 by (simp only:)
  have w4: "sp_eliminate (forward_call 2 ex_particle_guide ex_particle_model
                      (make_targets [] ex_particle_costs))
        \<inter> inputs (Constant (inputs (Atom ''logp_x'' {''x'', ''num_particles_vectorized''}))
                    ZeroTensor) = {''x''}"
    using u[THEN conjunct2] s2 s3 s4 by (simp only:)
  show ?thesis using c w1 w2 w3 w4 by (simp only: simp_thms)
qed

text \<open>
  Claim C4 as it is stated says that no free variable of a cost term is among the
  variables of its probe's signature that the contraction eliminates. In the example with
  two particles, \<open>logp_x\<close> is one of the costs, its probe has the signature \<open>x\<close>,
  \<open>num_particles_vectorized\<close>, and \<open>x\<close>, a measure variable of the guide, is eliminated.
\<close>

theorem probe_signature_eliminated_counterexample:
  "costs ex_particle_lib ex_particle_guide ex_particle_model = Inr ex_particle_costs
   \<and> Atom ''logp_x'' {''x'', ''num_particles_vectorized''} \<in> set ex_particle_costs
   \<and> map_of (make_targets [] ex_particle_costs)
         (inputs (Atom ''logp_x'' {''x'', ''num_particles_vectorized''}))
       = Some (Constant {''x'', ''num_particles_vectorized''} ZeroTensor)
   \<and> sp_eliminate (forward_call 2 ex_particle_guide ex_particle_model
                      (make_targets [] ex_particle_costs))
        \<inter> inputs (Constant {''x'', ''num_particles_vectorized''} ZeroTensor) = {''x''}
   \<and> sp_eliminate (forward_call 2 ex_particle_guide ex_particle_model
                      (make_targets [] ex_particle_costs))
        \<inter> inputs (Constant {''x'', ''num_particles_vectorized''} ZeroTensor) \<noteq> {}"
  by code_simp

section \<open>Integration of the costs\<close>

text \<open>
  Claim C5. The loss is returned exactly when the costs exist, the marginal of every
  cost's probe is found, and the particle variable, if there is one, is an input of the
  elbo. The elbo is the sum, started at zero and taken in the order of the costs, of one
  term for each cost: \<open>Integrate\<close> of the probe's marginal and the cost over the cost's
  inputs minus the plate variables minus the particle variable, sum-reduced over the plate
  variables among the cost's inputs when there are any. The loss is the negation of the
  data of the optimised elbo, mean-reduced over the particle variable when there is one.
\<close>

theorem loss_is_negated_integrated_bound:
  "loss_of_terms L np g m = Inr r \<longleftrightarrow>
     (\<exists>cs lms elbo. costs L g m = Inr cs
        \<and> list_all2
            (\<lambda>c lm. adjoint L Logaddexp Add (logzq L np g m (make_targets [] cs))
                       (Constant (inputs c) ZeroTensor) = Inr lm) cs lms
        \<and> elbo = foldl (\<lambda>acc (c, lm). Binary Add acc
                     (if ((plate_vars g \<union> plate_vars m) - particle_var np) \<inter> inputs c = {}
                      then Integrate lm c
                             ((inputs c - ((plate_vars g \<union> plate_vars m) - particle_var np))
                                - particle_var np)
                      else Reduce Add
                             (Integrate lm c
                                ((inputs c - ((plate_vars g \<union> plate_vars m) - particle_var np))
                                   - particle_var np))
                             (((plate_vars g \<union> plate_vars m) - particle_var np) \<inter> inputs c)))
                   (Number 0) (zip cs lms)
        \<and> particle_var np \<subseteq> inputs elbo
        \<and> r = - to_data L (apply_optimizer L
                   (if particle_var np = {} then elbo
                    else Reduce Mean elbo (particle_var np))))"
proof (cases "costs L g m")
  case (Inl e)
  then show ?thesis by (simp add: loss_of_terms_unfold)
next
  case (Inr cs)
  let ?T = "make_targets [] cs"
  let ?M = "adjoint L Logaddexp Add (logzq L np g m ?T)"
  let ?PV = "(plate_vars g \<union> plate_vars m) - particle_var np"
  let ?F = "\<lambda>acc (c, lm). Binary Add acc
              (if ?PV \<inter> inputs c = {} then Integrate lm c ((inputs c - ?PV) - particle_var np)
               else Reduce Add (Integrate lm c ((inputs c - ?PV) - particle_var np))
                      (?PV \<inter> inputs c))"
  let ?Q = "\<lambda>c lm. ?M (Constant (inputs c) ZeroTensor) = Inr lm"
  have pv: "elbo_plate_vars np g m = ?PV" by (simp add: elbo_plate_vars_def)
  have ic: "integrate_costs ?T ?M (elbo_plate_vars np g m) (particle_var np) (Number 0) cs
              = Inr elbo \<longleftrightarrow>
            (\<exists>lms. list_all2 ?Q cs lms \<and> elbo = foldl ?F (Number 0) (zip cs lms))"
    for elbo
    unfolding pv by (rule integrate_costs_targets)
  show ?thesis
  proof
    assume a: "loss_of_terms L np g m = Inr r"
    then obtain elbo where
      e1: "integrate_costs ?T ?M (elbo_plate_vars np g m) (particle_var np) (Number 0) cs
             = Inr elbo"
      unfolding loss_of_terms_unfold Inr by (auto split: sum.splits)
    from a e1 obtain avg where
      e2: "reduce Mean elbo (particle_var np) = Inr avg"
      and e3: "r = - to_data L (apply_optimizer L avg)"
      unfolding loss_of_terms_unfold Inr by (auto split: sum.splits)
    from e2 have e4: "particle_var np \<subseteq> inputs elbo"
      and e5: "avg = (if particle_var np = {} then elbo else Reduce Mean elbo (particle_var np))"
      by (simp_all add: reduce_Inr_iff)
    from e1 obtain lms where l1: "list_all2 ?Q cs lms"
      and l2: "elbo = foldl ?F (Number 0) (zip cs lms)"
      using ic by blast
    show "\<exists>cs lms elbo. costs L g m = Inr cs
        \<and> list_all2
            (\<lambda>c lm. adjoint L Logaddexp Add (logzq L np g m (make_targets [] cs))
                       (Constant (inputs c) ZeroTensor) = Inr lm) cs lms
        \<and> elbo = foldl ?F (Number 0) (zip cs lms)
        \<and> particle_var np \<subseteq> inputs elbo
        \<and> r = - to_data L (apply_optimizer L
                   (if particle_var np = {} then elbo
                    else Reduce Mean elbo (particle_var np)))"
      using Inr l1 l2 e3 e4 e5 by blast
  next
    assume "\<exists>cs lms elbo. costs L g m = Inr cs
        \<and> list_all2
            (\<lambda>c lm. adjoint L Logaddexp Add (logzq L np g m (make_targets [] cs))
                       (Constant (inputs c) ZeroTensor) = Inr lm) cs lms
        \<and> elbo = foldl ?F (Number 0) (zip cs lms)
        \<and> particle_var np \<subseteq> inputs elbo
        \<and> r = - to_data L (apply_optimizer L
                   (if particle_var np = {} then elbo
                    else Reduce Mean elbo (particle_var np)))"
    then obtain lms elbo where l1: "list_all2 ?Q cs lms"
      and l2: "elbo = foldl ?F (Number 0) (zip cs lms)"
      and l3: "particle_var np \<subseteq> inputs elbo"
      and l4: "r = - to_data L (apply_optimizer L
                   (if particle_var np = {} then elbo
                    else Reduce Mean elbo (particle_var np)))"
      using Inr by auto
    have i: "integrate_costs ?T ?M (elbo_plate_vars np g m) (particle_var np) (Number 0) cs
            = Inr elbo"
      using ic l1 l2 by blast
    have j: "reduce Mean elbo (particle_var np)
               = Inr (if particle_var np = {} then elbo else Reduce Mean elbo (particle_var np))"
      using l3 by (simp add: reduce_Inr_iff)
    show "loss_of_terms L np g m = Inr r"
      unfolding loss_of_terms_unfold Inr using i j l4 by simp
  qed
qed

theorem loss_is_negated_integrated_bound_witness:
  "loss_of_terms ex_particle_lib 2 ex_particle_guide ex_particle_model
     = Inr (NegData (ToData (Reduce Mean ex_particle_elbo {''num_particles_vectorized''})))"
proof -
  have c: "costs ex_particle_lib ex_particle_guide ex_particle_model = Inr ex_particle_costs"
    by code_simp
  have l: "list_all2
            (\<lambda>c lm. adjoint ex_particle_lib Logaddexp Add
                       (logzq ex_particle_lib 2 ex_particle_guide ex_particle_model
                          (make_targets [] ex_particle_costs))
                       (Constant (inputs c) ZeroTensor) = Inr lm)
            ex_particle_costs ex_particle_marginals"
    by code_simp
  have e: "ex_particle_elbo = foldl (\<lambda>acc (c, lm). Binary Add acc
                     (if ((plate_vars ex_particle_guide \<union> plate_vars ex_particle_model)
                            - particle_var 2) \<inter> inputs c = {}
                      then Integrate lm c
                             ((inputs c - ((plate_vars ex_particle_guide
                                              \<union> plate_vars ex_particle_model) - particle_var 2))
                                - particle_var 2)
                      else Reduce Add
                             (Integrate lm c
                                ((inputs c - ((plate_vars ex_particle_guide
                                                 \<union> plate_vars ex_particle_model) - particle_var 2))
                                   - particle_var 2))
                             (((plate_vars ex_particle_guide \<union> plate_vars ex_particle_model)
                                 - particle_var 2) \<inter> inputs c)))
                   (Number 0) (zip ex_particle_costs ex_particle_marginals)"
    by code_simp
  have s: "particle_var 2 \<subseteq> inputs ex_particle_elbo"
    by code_simp
  have r: "NegData (ToData (Reduce Mean ex_particle_elbo {''num_particles_vectorized''}))
             = - to_data ex_particle_lib (apply_optimizer ex_particle_lib
                   (if particle_var 2 = {} then ex_particle_elbo
                    else Reduce Mean ex_particle_elbo (particle_var 2)))"
    by code_simp
  show ?thesis
    using loss_is_negated_integrated_bound[of ex_particle_lib 2 ex_particle_guide
        ex_particle_model
        "NegData (ToData (Reduce Mean ex_particle_elbo {''num_particles_vectorized''}))"]
      c l e s r
    by blast
qed

section \<open>Further properties of the stages\<close>

text \<open>
  The handlers of lines 23 to 32, the mean of line 127 with one particle and with no cost,
  the propagation of a failed marginal lookup, and the costs of a model without auxiliary
  latent variables.
\<close>

lemma differentiable_loss_terms:
  "particle_plate np mpn = Inr pl \<Longrightarrow> get_terms L (first_available_dim mpn) pl = (g, m) \<Longrightarrow>
   differentiable_loss L np mpn = loss_of_terms L np g m"
  by (simp add: differentiable_loss_def)

lemma particle_plate_introduced:
  "(\<exists>pl. particle_plate np mpn = Inr (Some pl)) \<longleftrightarrow> np > 1 \<and> mpn \<noteq> NestingNone"
  by (cases mpn) (auto simp: particle_plate_def)

lemma particle_plate_dim:
  "np > 1 \<Longrightarrow> particle_plate np (NestingInt n) =
     Inr (Some \<lparr>plate_name = ''num_particles_vectorized'', plate_size = np,
                plate_dim = DimInt (- n)\<rparr>)"
  by (simp add: particle_plate_def)

lemma particle_var_empty: "particle_var np = {} \<longleftrightarrow> \<not> np > 1"
  by (simp add: particle_var_def)

lemma differentiable_loss_nesting_none:
  "np > 1 \<Longrightarrow> differentiable_loss L np NestingNone = Inl TypeError"
  by (simp add: differentiable_loss_def particle_plate_def)

lemma mean_single_particle:
  "\<not> np > 1 \<Longrightarrow> reduce Mean elbo (particle_var np) = Inr elbo"
  by (simp add: reduce_def particle_var_def)

lemma no_costs_several_particles:
  "np > 1 \<Longrightarrow> costs L g m = Inr [] \<Longrightarrow> loss_of_terms L np g m = Inl KeyError"
  by (simp add: loss_of_terms_unfold reduce_def particle_var_def)

lemma marginal_failure_aborts:
  assumes "costs L g m = Inr cs" "c \<in> set cs"
    and "adjoint L Logaddexp Add (logzq L np g m (make_targets [] cs))
           (Constant (inputs c) ZeroTensor) = Inl e"
  shows "\<exists>e'. loss_of_terms L np g m = Inl e'"
proof (cases "integrate_costs (make_targets [] cs)
                (adjoint L Logaddexp Add (logzq L np g m (make_targets [] cs)))
                (elbo_plate_vars np g m) (particle_var np) (Number 0) cs")
  case (Inl e')
  then show ?thesis using assms(1) by (simp add: loss_of_terms_unfold)
next
  case (Inr elbo)
  then obtain lms where
    "list_all2 (\<lambda>c lm. adjoint L Logaddexp Add (logzq L np g m (make_targets [] cs))
                  (Constant (inputs c) ZeroTensor) = Inr lm) cs lms"
    unfolding integrate_costs_targets by blast
  with assms(2) obtain lm where
    "adjoint L Logaddexp Add (logzq L np g m (make_targets [] cs))
       (Constant (inputs c) ZeroTensor) = Inr lm"
    by (auto simp: list_all2_conv_all_nth in_set_conv_nth)
  with assms(3) show ?thesis by simp
qed

lemma costs_without_auxiliary:
  assumes "measure_vars m = {}" "log_measures m = []" "sp_partition L [] {} = []"
  shows "costs L g m = Inr (log_factors m @ map (\<lambda>f. Unary Neg f) (log_factors g))"
  using assms
  by (simp add: costs_def contracted_costs_def model_groups_def contracted_factors_def
      uncontracted_factors_def model_measure_vars_def costs_of_def)

end
